theory Spec2Isabelle
  imports Main "HOL-Library.AList"
begin

section \<open>QA Provisioner: data model\<close>

text \<open>
  The program is the single module \<^verbatim>\<open>app.py\<close>: four request handlers
  (\<^verbatim>\<open>provision\<close>, \<^verbatim>\<open>destroy\<close>, \<^verbatim>\<open>list_envs\<close>, \<^verbatim>\<open>garbage_collect\<close>) over
  the module-level dictionary \<^verbatim>\<open>STATE\<close>, its copy on disk \<^verbatim>\<open>state.json\<close>, the work
  directories under \<^verbatim>\<open>BASE\<close>, and the docker and ngrok processes it starts.

  The value stored under an environment id is the dictionary built at lines 120-124.
\<close>

record env =
  branch :: string
  sha :: string
  url :: string
  port :: int
  workdir :: string
  created_at :: int
  expires_at :: int

text \<open>
  \<^verbatim>\<open>STATE\<close> is a Python dictionary, which keeps insertion order: an association list.
  \<^verbatim>\<open>STATE[k] = v\<close> is \<^const>\<open>AList.update\<close> (a present key keeps its position, a new one is
  appended), \<^verbatim>\<open>del STATE[k]\<close> is \<^const>\<open>AList.delete\<close>, \<^verbatim>\<open>STATE.get(k)\<close> is \<^const>\<open>map_of\<close>.
\<close>

type_synonym state = "(string \<times> env) list"

text \<open>
  The request bodies (lines 27-33) and the dictionary \<^verbatim>\<open>provision\<close> returns (line 126).
  The default \<^verbatim>\<open>"web"\<close> of \<^verbatim>\<open>service\<close> is filled in before the handler runs, so a request
  always has a service; \<^verbatim>\<open>ttl_minutes\<close> is an optional integer of any sign.
\<close>

record ProvisionReq =
  req_branch :: string
  req_service :: string
  req_ttl_minutes :: "int option"

record provisioned =
  r_env_id :: string
  r_url :: string
  r_expires_at :: int
  r_sha :: string


text \<open>The module-level configuration read from the process environment (lines 11-25).\<close>

record config =
  BASE :: string
  GITHUB_TOKEN :: "string option"
  OWNER :: "string option"
  REPO :: "string option"
  DOCKER_NETWORK :: string
  DEFAULT_TTL :: int
  ALLOWED :: "string set"
  NGROK_AUTHTOKEN :: "string option"
  NGROK_REGION :: string

text \<open>
  The external commands the program hands to \<^verbatim>\<open>run\<close>, one constructor per argument vector;
  a command run with \<^verbatim>\<open>cwd=workdir\<close> carries the work directory last.
\<close>

datatype cmd =
    GitClone string string              \<comment> \<open>\<^verbatim>\<open>git clone <url> .\<close>, cwd\<close>
  | GitCheckout string string           \<comment> \<open>\<^verbatim>\<open>git checkout <branch>\<close>, cwd\<close>
  | NetworkInspect string               \<comment> \<open>\<^verbatim>\<open>docker network inspect <net>\<close>\<close>
  | NetworkCreate string                \<comment> \<open>\<^verbatim>\<open>docker network create <net>\<close>\<close>
  | ComposeUp string                    \<comment> \<open>\<^verbatim>\<open>docker compose -f docker-compose.qa.yml up -d --build\<close>, cwd\<close>
  | ComposeDown string                  \<comment> \<open>\<^verbatim>\<open>docker compose -f docker-compose.qa.yml down -v\<close>, cwd\<close>
  | DockerBuild string string           \<comment> \<open>\<^verbatim>\<open>docker build -t <image> .\<close>, cwd\<close>
  | DockerRun string string int string  \<comment> \<open>\<^verbatim>\<open>docker run -d --name <id> --network <net> -p <port>:<port> <image>\<close>\<close>
  | DockerRm string                     \<comment> \<open>\<^verbatim>\<open>docker rm -f <id>\<close>\<close>
  | NgrokAuthtoken string               \<comment> \<open>\<^verbatim>\<open>ngrok config add-authtoken <token>\<close>\<close>

text \<open>
  What the program does to the outside, in order: each command given to \<^verbatim>\<open>run\<close> (the
  lines it prints with a leading \<^verbatim>\<open>+\<close>), the request to the GitHub API, the ngrok
  process it spawns and the termination of that process.
\<close>

datatype effect =
    Exec cmd
  | GitHubGet string
  | Popen int string
  | Terminate

text \<open>
  The mutable world: the dictionary, the file \<^verbatim>\<open>state.json\<close>, the directories that exist,
  the work directories that hold a \<^verbatim>\<open>docker-compose.qa.yml\<close>, the named containers and
  the compose stacks that are up, the number of live ngrok processes started by the
  program, and the effects so far.
\<close>

record world =
  STATE :: state
  STATE_DB :: state
  dirs :: "string set"
  compose_files :: "string set"
  containers :: "string set"
  stacks :: "string set"
  ngrok_procs :: nat
  trace :: "effect list"

text \<open>
  What the collaborators answer during one request. The program does not decide these:
  the exit status of each command, the reply of the GitHub API (status code and the
  \<^verbatim>\<open>object.sha\<close> of the body), whether the checked-out tree holds a compose file, whether
  \<^verbatim>\<open>shutil.rmtree\<close> manages to remove a directory, what each poll of the ngrok control
  endpoint yields (\<open>Some\<close> the public URL of the first http tunnel, \<open>None\<close> when there is
  none or the request raises), the hexadecimal form of the fresh UUID, and the two
  readings of \<^verbatim>\<open>int(time.time())\<close> at lines 118 and 123.
\<close>

record outcomes =
  exit_ok :: "cmd \<Rightarrow> bool"
  gh_reply :: "nat \<times> string"
  has_compose :: bool
  rmtree_ok :: "string \<Rightarrow> bool"
  tunnel_poll :: "nat \<Rightarrow> string option"
  uuid_hex :: string
  time1 :: int
  time2 :: int

text \<open>
  Every \<^verbatim>\<open>raise\<close> of the program is an \<^verbatim>\<open>HTTPException\<close> with a status code; the
  subscript \<^verbatim>\<open>STATE[env_id]\<close> at line 159 raises \<^verbatim>\<open>KeyError\<close> on a missing key. The
  detail text of an exception is not modelled. Calls into the local file system
  (\<^verbatim>\<open>mkdir\<close>, \<^verbatim>\<open>write_text\<close>, \<^verbatim>\<open>exists\<close>) and the GitHub request itself are taken to
  return; their replies are free. The one exception is the section on a failing write
  below, where \<^verbatim>\<open>write_text\<close> may raise \<^verbatim>\<open>OSError\<close>.
\<close>

datatype error = HTTPException nat | KeyError | OSError

type_synonym 'a result = "(error + 'a) \<times> world"

section \<open>Helpers\<close>

text \<open>Sequencing: an exception skips the rest, the world so far is kept.\<close>

definition and_then :: "'a result \<Rightarrow> ('a \<Rightarrow> world \<Rightarrow> 'b result) \<Rightarrow> 'b result" where
  "and_then r f = (case r of (Inl e, w) \<Rightarrow> (Inl e, w) | (Inr x, w) \<Rightarrow> f x w)"

text \<open>\<^verbatim>\<open>not s\<close> for an optional string: true for \<^verbatim>\<open>None\<close> and for the empty string.\<close>

fun falsy :: "string option \<Rightarrow> bool" where
  "falsy None = True"
| "falsy (Some s) = (s = [])"

text \<open>An optional string inside an f-string.\<close>

fun fmt :: "string option \<Rightarrow> string" where
  "fmt None = ''None''"
| "fmt (Some s) = s"

text \<open>\<^verbatim>\<open>branch.replace('/', '-')\<close>.\<close>

definition replace_slash :: "string \<Rightarrow> string" where
  "replace_slash s = map (\<lambda>c. if c = CHR ''/'' then CHR ''-'' else c) s"

text \<open>\<^verbatim>\<open>BASE / env_id\<close> as a string; an environment id holds no slash.\<close>

definition path_join :: "string \<Rightarrow> string \<Rightarrow> string" where
  "path_join b e = b @ ''/'' @ e"

definition log :: "effect \<Rightarrow> world \<Rightarrow> world" where
  "log e w = w\<lparr>trace := trace w @ [e]\<rparr>"

definition save_state :: "world \<Rightarrow> world" where
  "save_state w = w\<lparr>STATE_DB := STATE w\<rparr>"

definition mkdir :: "string \<Rightarrow> world \<Rightarrow> world" where
  "mkdir d w = w\<lparr>dirs := insert d (dirs w)\<rparr>"

text \<open>\<^verbatim>\<open>(workdir / "docker-compose.qa.yml").exists()\<close>.\<close>

definition compose_exists :: "string \<Rightarrow> world \<Rightarrow> bool" where
  "compose_exists d w = (d \<in> dirs w \<and> d \<in> compose_files w)"

text \<open>
  \<^verbatim>\<open>shutil.rmtree(workdir, ignore_errors=True)\<close> inside \<^verbatim>\<open>try\<close>: the directory and what
  it holds are gone when the removal works, and nothing is raised when it does not.
\<close>

definition rmtree :: "outcomes \<Rightarrow> string \<Rightarrow> world \<Rightarrow> world" where
  "rmtree oc d w =
     (if rmtree_ok oc d then w\<lparr>dirs := dirs w - {d}, compose_files := compose_files w - {d}\<rparr>
      else w)"

text \<open>What a command that exits with status 0 has done to the world.\<close>

fun effect_of :: "outcomes \<Rightarrow> cmd \<Rightarrow> world \<Rightarrow> world" where
  "effect_of oc (GitCheckout b d) w =
     w\<lparr>compose_files := (if has_compose oc then insert d (compose_files w) else compose_files w - {d})\<rparr>"
| "effect_of oc (ComposeUp d) w = w\<lparr>stacks := insert d (stacks w)\<rparr>"
| "effect_of oc (ComposeDown d) w = w\<lparr>stacks := stacks w - {d}\<rparr>"
| "effect_of oc (DockerRun n net p img) w = w\<lparr>containers := insert n (containers w)\<rparr>"
| "effect_of oc (DockerRm n) w = w\<lparr>containers := containers w - {n}\<rparr>"
| "effect_of oc c w = w"

section \<open>The program\<close>

text \<open>\<^verbatim>\<open>run\<close> (lines 38-43): a non-zero exit status raises status 500.\<close>

definition run :: "outcomes \<Rightarrow> cmd \<Rightarrow> world \<Rightarrow> unit result" where
  "run oc c w =
     (let w1 = log (Exec c) w
      in if exit_ok oc c then (Inr (), effect_of oc c w1) else (Inl (HTTPException 500), w1))"

text \<open>The address of line 48 and the clone address of line 96, both f-strings.\<close>

definition refs_url :: "config \<Rightarrow> string \<Rightarrow> string" where
  "refs_url cfg b =
     ''https://api.github.com/repos/'' @ fmt (OWNER cfg) @ ''/'' @ fmt (REPO cfg)
       @ ''/git/refs/heads/'' @ b"

definition clone_url :: "config \<Rightarrow> string" where
  "clone_url cfg =
     ''https://'' @ fmt (GITHUB_TOKEN cfg) @ '':x-oauth-basic@github.com/''
       @ fmt (OWNER cfg) @ ''/'' @ fmt (REPO cfg) @ ''.git''"

text \<open>\<^verbatim>\<open>gh_branch_exists\<close> (lines 45-52).\<close>

definition gh_branch_exists :: "config \<Rightarrow> outcomes \<Rightarrow> string \<Rightarrow> world \<Rightarrow> string result" where
  "gh_branch_exists cfg oc b w =
     (if falsy (GITHUB_TOKEN cfg) \<or> falsy (OWNER cfg) \<or> falsy (REPO cfg)
      then (Inl (HTTPException 400), w)
      else
        let w1 = log (GitHubGet (refs_url cfg b)) w
        in if fst (gh_reply oc) \<noteq> 200 then (Inl (HTTPException 404), w1)
           else (Inr (snd (gh_reply oc)), w1))"

text \<open>\<^verbatim>\<open>ensure_network\<close> (lines 54-58): the bare \<^verbatim>\<open>except\<close> catches the failed inspection.\<close>

definition ensure_network :: "config \<Rightarrow> outcomes \<Rightarrow> world \<Rightarrow> unit result" where
  "ensure_network cfg oc w =
     (case run oc (NetworkInspect (DOCKER_NETWORK cfg)) w of
        (Inr u, w1) \<Rightarrow> (Inr u, w1)
      | (Inl e, w1) \<Rightarrow> run oc (NetworkCreate (DOCKER_NETWORK cfg)) w1)"

text \<open>
  The polling loop of \<^verbatim>\<open>start_ngrok\<close> (lines 73-81): \<open>wait_tunnel p i n\<close> makes \<open>n\<close>
  more attempts, the next one being attempt \<open>i\<close>.
\<close>

fun wait_tunnel :: "(nat \<Rightarrow> string option) \<Rightarrow> nat \<Rightarrow> nat \<Rightarrow> string option" where
  "wait_tunnel p i 0 = None"
| "wait_tunnel p i (Suc n) = (case p i of Some u \<Rightarrow> Some u | None \<Rightarrow> wait_tunnel p (Suc i) n)"

text \<open>\<^verbatim>\<open>start_ngrok\<close> (lines 60-83).\<close>

definition start_ngrok :: "config \<Rightarrow> outcomes \<Rightarrow> int \<Rightarrow> world \<Rightarrow> string result" where
  "start_ngrok cfg oc p w =
     (if falsy (NGROK_AUTHTOKEN cfg) then (Inl (HTTPException 400), w)
      else
        let w1 = snd (run oc (NgrokAuthtoken (fmt (NGROK_AUTHTOKEN cfg))) w);
            w2 = log (Popen p (NGROK_REGION cfg)) (w1\<lparr>ngrok_procs := Suc (ngrok_procs w1)\<rparr>)
        in case wait_tunnel (tunnel_poll oc) 0 40 of
             Some u \<Rightarrow> (Inr u, w2)
           | None \<Rightarrow> (Inl (HTTPException 500),
                      log Terminate (w2\<lparr>ngrok_procs := ngrok_procs w2 - 1\<rparr>)))"

text \<open>The environment id of line 91 and \<^verbatim>\<open>ttl = req.ttl_minutes or DEFAULT_TTL\<close> of line 117.\<close>

definition make_env_id :: "string \<Rightarrow> string \<Rightarrow> string \<Rightarrow> string" where
  "make_env_id b s u = replace_slash b @ ''-'' @ take 7 s @ ''-'' @ take 6 u"

definition ttl_of :: "config \<Rightarrow> ProvisionReq \<Rightarrow> int" where
  "ttl_of cfg req =
     (case req_ttl_minutes req of
        None \<Rightarrow> DEFAULT_TTL cfg
      | Some t \<Rightarrow> if t = 0 then DEFAULT_TTL cfg else t)"

text \<open>Lines 101-114: start the compose stack, or build and run the single image.\<close>

definition build_and_run ::
  "config \<Rightarrow> outcomes \<Rightarrow> ProvisionReq \<Rightarrow> string \<Rightarrow> string \<Rightarrow> world \<Rightarrow> int result" where
  "build_and_run cfg oc req eid wd w =
     (if compose_exists wd w
      then and_then (run oc (ComposeUp wd) w) (\<lambda>_ w1. (Inr 8080, w1))
      else
        let image = eid @ '':'' @ req_service req
        in and_then (run oc (DockerBuild image wd) w) (\<lambda>_ w1.
           and_then (run oc (DockerRun eid (DOCKER_NETWORK cfg) 8080 image) w1) (\<lambda>_ w2.
           (Inr 8080, w2))))"

text \<open>\<^verbatim>\<open>provision\<close> (lines 85-126).\<close>

definition provision :: "config \<Rightarrow> outcomes \<Rightarrow> ProvisionReq \<Rightarrow> world \<Rightarrow> provisioned result" where
  "provision cfg oc req w =
     (if req_service req \<notin> ALLOWED cfg then (Inl (HTTPException 400), w)
      else
        and_then (gh_branch_exists cfg oc (req_branch req) w) (\<lambda>s w1.
        let eid = make_env_id (req_branch req) s (uuid_hex oc);
            wd = path_join (BASE cfg) eid;
            w2 = mkdir wd w1
        in and_then (run oc (GitClone (clone_url cfg) wd) w2) (\<lambda>_ w3.
           and_then (run oc (GitCheckout (req_branch req) wd) w3) (\<lambda>_ w4.
           and_then (ensure_network cfg oc w4) (\<lambda>_ w5.
           and_then (build_and_run cfg oc req eid wd w5) (\<lambda>p w6.
           and_then (start_ngrok cfg oc p w6) (\<lambda>u w7.
           let ttl = ttl_of cfg req;
               e = time1 oc + ttl * 60;
               w8 = w7\<lparr>STATE := AList.update eid
                       \<lparr>branch = req_branch req, sha = s, url = u, port = p, workdir = wd,
                        created_at = time2 oc, expires_at = e\<rparr> (STATE w7)\<rparr>
           in (Inr \<lparr>r_env_id = eid, r_url = u, r_expires_at = e, r_sha = s\<rparr>,
               save_state w8))))))))"

text \<open>
  \<^verbatim>\<open>destroy\<close> (lines 128-144); the value returned stands for \<^verbatim>\<open>{"ok": True}\<close>. A stored
  record always has its seven fields, so \<^verbatim>\<open>not env\<close> at line 131 is true for a missing key
  only. The two teardown commands and the removal of the directory are inside
  \<^verbatim>\<open>try\<close> with a bare \<^verbatim>\<open>except: pass\<close>: only the world they leave is kept.
\<close>

definition destroy :: "outcomes \<Rightarrow> string \<Rightarrow> world \<Rightarrow> bool result" where
  "destroy oc eid w =
     (case map_of (STATE w) eid of
        None \<Rightarrow> (Inl (HTTPException 404), w)
      | Some e \<Rightarrow>
          let wd = workdir e;
              w1 = (if compose_exists wd w then snd (run oc (ComposeDown wd) w)
                    else snd (run oc (DockerRm eid) w));
              w2 = rmtree oc wd w1;
              w3 = w2\<lparr>STATE := AList.delete eid (STATE w2)\<rparr>
          in (Inr True, save_state w3))"


text \<open>
  \<^verbatim>\<open>garbage_collect\<close> (lines 154-165). The loop runs over a snapshot of the keys;
  \<open>killed\<close> grows at its end; an exception of \<^verbatim>\<open>destroy\<close> is caught and the loop goes on.
\<close>

fun gc_loop :: "outcomes \<Rightarrow> int \<Rightarrow> string list \<Rightarrow> string list \<Rightarrow> world \<Rightarrow> string list result" where
  "gc_loop oc now [] killed w = (Inr killed, w)"
| "gc_loop oc now (k # ks) killed w =
     (case map_of (STATE w) k of
        None \<Rightarrow> (Inl KeyError, w)
      | Some v \<Rightarrow>
          if expires_at v \<le> now
          then (case destroy oc k w of
                  (Inr _, w1) \<Rightarrow> gc_loop oc now ks (killed @ [k]) w1
                | (Inl _, w1) \<Rightarrow> gc_loop oc now ks killed w1)
          else gc_loop oc now ks killed w)"

definition garbage_collect :: "outcomes \<Rightarrow> int \<Rightarrow> world \<Rightarrow> string list result" where
  "garbage_collect oc now w = gc_loop oc now (map fst (STATE w)) [] w"

section \<open>The program when the write of the state file may fail\<close>





section \<open>Sequences of requests\<close>

text \<open>A sequence of requests served one after the other.\<close>

datatype request =
    Provision outcomes ProvisionReq
  | Destroy outcomes string
  | ListEnvs int
  | GarbageCollect outcomes int

fun handle :: "config \<Rightarrow> request \<Rightarrow> world \<Rightarrow> world" where
  "handle cfg (Provision oc req) w = snd (provision cfg oc req w)"
| "handle cfg (Destroy oc eid) w = snd (destroy oc eid w)"
| "handle cfg (ListEnvs now) w = w"
| "handle cfg (GarbageCollect oc now) w = snd (garbage_collect oc now w)"

fun serve :: "config \<Rightarrow> request list \<Rightarrow> world \<Rightarrow> world" where
  "serve cfg [] w = w"
| "serve cfg (r # rs) w = serve cfg rs (handle cfg r w)"

section \<open>Notions used in the statements\<close>

text \<open>
  \<open>keeps w w'\<close>: the dictionary and its file are as in \<open>w\<close>, and every directory,
  container and stack of \<open>w\<close> is still there in \<open>w'\<close>.
\<close>

definition keeps :: "world \<Rightarrow> world \<Rightarrow> bool" where
  "keeps w w' \<longleftrightarrow>
     STATE w' = STATE w \<and> STATE_DB w' = STATE_DB w \<and> dirs w \<subseteq> dirs w'
       \<and> containers w \<subseteq> containers w' \<and> stacks w \<subseteq> stacks w'"

text \<open>The two commands that take something down.\<close>

fun teardown :: "cmd \<Rightarrow> bool" where
  "teardown (ComposeDown d) = True"
| "teardown (DockerRm n) = True"
| "teardown c = False"

text \<open>
  \<open>no_undo oc w w'\<close>: \<open>w'\<close> keeps what \<open>w\<close> had; the effects since \<open>w\<close> hold no
  teardown command; and every container and every compose stack started since \<open>w\<close> by a
  command that exited with status 0 is there in \<open>w'\<close>.
\<close>

definition no_undo :: "outcomes \<Rightarrow> world \<Rightarrow> world \<Rightarrow> bool" where
  "no_undo oc w w' \<longleftrightarrow>
     keeps w w' \<and>
     (\<exists>t. trace w' = trace w @ t
        \<and> (\<forall>c. Exec c \<in> set t \<longrightarrow> \<not> teardown c)
        \<and> (\<forall>n net p img. Exec (DockerRun n net p img) \<in> set t
              \<longrightarrow> exit_ok oc (DockerRun n net p img) \<longrightarrow> n \<in> containers w')
        \<and> (\<forall>d. Exec (ComposeUp d) \<in> set t \<longrightarrow> exit_ok oc (ComposeUp d) \<longrightarrow> d \<in> stacks w'))"


text \<open>What every record written by \<open>provision\<close> satisfies.\<close>

definition store_inv :: "config \<Rightarrow> state \<Rightarrow> bool" where
  "store_inv cfg s \<longleftrightarrow>
     (\<forall>k v. map_of s k = Some v \<longrightarrow> workdir v = path_join (BASE cfg) k \<and> port v = 8080)"

section \<open>Sample configuration, worlds and replies\<close>

definition cfg0 :: config where
  "cfg0 = \<lparr>BASE = ''/qa'', GITHUB_TOKEN = Some ''t'', OWNER = Some ''o'', REPO = Some ''r'',
            DOCKER_NETWORK = ''qa_net'', DEFAULT_TTL = 120, ALLOWED = {''web'', ''api''},
            NGROK_AUTHTOKEN = Some ''n'', NGROK_REGION = ''us''\<rparr>"

definition w_init :: world where
  "w_init = \<lparr>STATE = [], STATE_DB = [], dirs = {}, compose_files = {}, containers = {}, stacks = {},
          ngrok_procs = 0, trace = []\<rparr>"

text \<open>Everything works; the repository holds a compose file; the tunnel shows at the second poll.\<close>

definition oc_ok :: outcomes where
  "oc_ok = \<lparr>exit_ok = (\<lambda>c. True), gh_reply = (200, ''abc1234def''), has_compose = True,
            rmtree_ok = (\<lambda>d. True), tunnel_poll = (\<lambda>i. if i = 1 then Some ''u'' else None),
            uuid_hex = ''0f1e2d3c'', time1 = 1000, time2 = 1001\<rparr>"

text \<open>The same with another UUID, and the same at a later time.\<close>

definition oc_ok2 :: outcomes where
  "oc_ok2 = oc_ok\<lparr>uuid_hex := ''a1b2c3d4''\<rparr>"

definition oc_later :: outcomes where
  "oc_later = oc_ok\<lparr>time1 := 5000, time2 := 5001\<rparr>"

text \<open>A single image that builds and runs, and a tunnel that never shows.\<close>

definition oc_no_tunnel :: outcomes where
  "oc_no_tunnel = oc_ok\<lparr>has_compose := False, tunnel_poll := (\<lambda>i. None)\<rparr>"

text \<open>GitHub answers 404.\<close>

definition oc_404 :: outcomes where
  "oc_404 = oc_ok\<lparr>gh_reply := (404, [])\<rparr>"


definition req_x :: ProvisionReq where
  "req_x = \<lparr>req_branch = ''f/x'', req_service = ''web'', req_ttl_minutes = Some 10\<rparr>"

definition req_neg :: ProvisionReq where
  "req_neg = \<lparr>req_branch = ''f/x'', req_service = ''web'', req_ttl_minutes = Some (- 5)\<rparr>"

definition req_bad :: ProvisionReq where
  "req_bad = \<lparr>req_branch = ''f/x'', req_service = ''db'', req_ttl_minutes = None\<rparr>"

text \<open>The world after one successful \<open>provision\<close>, and the two requests of a second scenario.\<close>

definition w_one :: world where
  "w_one = snd (provision cfg0 oc_ok req_x w_init)"

definition reqs2 :: "request list" where
  "reqs2 = [Provision oc_ok req_x, Provision oc_ok2 req_x]"

text \<open>A world with two records, expiring at 1000 and at 1001.\<close>

definition env_a :: env where
  "env_a = \<lparr>branch = ''a'', sha = ''1'', url = ''u'', port = 8080, workdir = ''/qa/a'',
             created_at = 400, expires_at = 1000\<rparr>"



text \<open>
  A world with one earlier environment, a compose stack, whose tunnel process is gone.
\<close>

definition w_prev :: world where
  "w_prev = \<lparr>STATE = [(''a'', env_a)], STATE_DB = [(''a'', env_a)], dirs = {''/qa/a''},
              compose_files = {''/qa/a''}, containers = {}, stacks = {''/qa/a''},
              ngrok_procs = 0, trace = []\<rparr>"

text \<open>
  A world whose dictionary still holds a record while the work directory of that record
  is no longer on disk, the stack is down and no tunnel process is left. It is what the
  program starts from after a \<^verbatim>\<open>destroy\<close> whose \<^verbatim>\<open>save_state\<close> raised (the stack was
  taken down, the directory removed and the key deleted in memory, the file kept the
  record) and a restart, which loads \<^verbatim>\<open>STATE\<close> from the file (line 16); it is also what
  removing the directory by hand leaves.
\<close>

definition env_old :: env where
  "env_old = \<lparr>branch = ''f/x'', sha = ''abc1234def'', url = ''u'', port = 8080,
               workdir = ''/qa/f-x-abc1234-0f1e2d'', created_at = 1001, expires_at = 1600\<rparr>"

definition w_stale :: world where
  "w_stale = \<lparr>STATE = [(''f-x-abc1234-0f1e2d'', env_old)],
               STATE_DB = [(''f-x-abc1234-0f1e2d'', env_old)], dirs = {}, compose_files = {},
               containers = {}, stacks = {}, ngrok_procs = 0, trace = []\<rparr>"


section \<open>Frame lemmas\<close>

lemma keeps_refl [simp]: "keeps w w"
  by (simp add: keeps_def)

lemma keeps_trans: "keeps a b \<Longrightarrow> keeps b c \<Longrightarrow> keeps a c"
  by (auto simp: keeps_def)

lemma run_STATE [simp]: "STATE (snd (run oc c w)) = STATE w"
  by (cases c) (simp_all add: run_def log_def Let_def)

lemma rmtree_STATE [simp]: "STATE (rmtree oc d w) = STATE w"
  by (simp add: rmtree_def)

lemma run_keeps: "\<not> teardown c \<Longrightarrow> run oc c w = (r, w') \<Longrightarrow> keeps w w'"
  by (cases c) (auto simp: run_def log_def Let_def keeps_def split: if_splits)

lemma gh_keeps: "gh_branch_exists cfg oc b w = (r, w') \<Longrightarrow> keeps w w'"
  by (auto simp: gh_branch_exists_def log_def Let_def keeps_def split: if_splits)

lemma gh_Inr:
  "gh_branch_exists cfg oc b w = (Inr s, w') \<Longrightarrow> s = snd (gh_reply oc) \<and> fst (gh_reply oc) = 200"
  by (auto simp: gh_branch_exists_def Let_def split: if_splits)

lemma ensure_network_keeps: "ensure_network cfg oc w = (r, w') \<Longrightarrow> keeps w w'"
  by (auto simp: ensure_network_def split: prod.splits sum.splits
        dest!: run_keeps[rotated] intro: keeps_trans)

lemma and_then_InlE:
  assumes "and_then r f = (Inl e, w')"
  obtains "r = (Inl e, w')" | x w1 where "r = (Inr x, w1)" "f x w1 = (Inl e, w')"
  using assms by (auto simp: and_then_def split: prod.splits sum.splits)

lemma and_then_InrE:
  assumes "and_then r f = (Inr y, w')"
  obtains x w1 where "r = (Inr x, w1)" "f x w1 = (Inr y, w')"
  using assms by (auto simp: and_then_def split: prod.splits sum.splits)

lemma build_and_run_keeps: "build_and_run cfg oc req eid wd w = (r, w') \<Longrightarrow> keeps w w'"
  unfolding build_and_run_def Let_def
  by (auto split: if_splits prod.splits sum.splits dest!: run_keeps[rotated]
        simp: and_then_def intro: keeps_trans)

lemma build_and_run_port: "build_and_run cfg oc req eid wd w = (Inr p, w') \<Longrightarrow> p = 8080"
  unfolding build_and_run_def Let_def
  by (auto split: if_splits elim!: and_then_InrE)

lemma start_ngrok_keeps: "start_ngrok cfg oc p w = (r, w') \<Longrightarrow> keeps w w'"
  unfolding start_ngrok_def Let_def
  by (cases "run oc (NgrokAuthtoken (fmt (NGROK_AUTHTOKEN cfg))) w")
     (auto split: if_splits option.splits dest!: run_keeps[rotated] simp: log_def keeps_def)

section \<open>Destroy\<close>


lemma destroy_STATE:
  "map_of (STATE w) eid = Some e \<Longrightarrow> STATE (snd (destroy oc eid w)) = AList.delete eid (STATE w)"
  by (simp add: destroy_def Let_def save_state_def)




section \<open>Provision: the early exits\<close>

text \<open>
  C10. When the service of the request is not in \<open>ALLOWED\<close>, \<open>provision\<close> raises status 400
  and the world is the one it started from, whatever the collaborators would have
  answered: no effect was recorded (no GitHub request, no command, no process), no
  directory was made, and the dictionary and its file are untouched.
\<close>

theorem C10_invalid_service_no_effect:
  "req_service req \<notin> ALLOWED cfg \<Longrightarrow> provision cfg oc req w = (Inl (HTTPException 400), w)"
  by (simp add: provision_def)

theorem C10_invalid_service_no_effect_witness:
  "req_service req_bad \<notin> ALLOWED cfg0
   \<and> provision cfg0 oc_ok req_bad w_one = (Inl (HTTPException 400), w_one)"
proof -
  have h: "req_service req_bad \<notin> ALLOWED cfg0" by code_simp
  from h C10_invalid_service_no_effect[OF h, of oc_ok w_one] show ?thesis by (rule conjI)
qed

text \<open>
  C5. When the service is allowed, the GitHub variables are set and GitHub answers the
  lookup of the branch with a status other than 200, \<open>provision\<close> raises status 404. The
  only change to the world is the recorded lookup: the dictionary and its file are
  unchanged and no directory was made.
\<close>

theorem C5_unknown_branch_not_found:
  assumes "req_service req \<in> ALLOWED cfg"
    and "\<not> falsy (GITHUB_TOKEN cfg)" and "\<not> falsy (OWNER cfg)" and "\<not> falsy (REPO cfg)"
    and "fst (gh_reply oc) \<noteq> 200"
  shows "provision cfg oc req w
           = (Inl (HTTPException 404), log (GitHubGet (refs_url cfg (req_branch req))) w)
       \<and> STATE (snd (provision cfg oc req w)) = STATE w
       \<and> STATE_DB (snd (provision cfg oc req w)) = STATE_DB w
       \<and> dirs (snd (provision cfg oc req w)) = dirs w"
  using assms by (simp add: provision_def gh_branch_exists_def and_then_def Let_def log_def)

theorem C5_unknown_branch_not_found_witness:
  "req_service req_x \<in> ALLOWED cfg0
   \<and> \<not> falsy (GITHUB_TOKEN cfg0) \<and> \<not> falsy (OWNER cfg0) \<and> \<not> falsy (REPO cfg0)
   \<and> fst (gh_reply oc_404) \<noteq> 200
   \<and> provision cfg0 oc_404 req_x w_init
       = (Inl (HTTPException 404), log (GitHubGet (refs_url cfg0 (req_branch req_x))) w_init)
   \<and> STATE (snd (provision cfg0 oc_404 req_x w_init)) = STATE w_init
   \<and> STATE_DB (snd (provision cfg0 oc_404 req_x w_init)) = STATE_DB w_init
   \<and> dirs (snd (provision cfg0 oc_404 req_x w_init)) = dirs w_init"
proof -
  have h1: "req_service req_x \<in> ALLOWED cfg0" by code_simp
  have h2: "\<not> falsy (GITHUB_TOKEN cfg0)" by code_simp
  have h3: "\<not> falsy (OWNER cfg0)" by code_simp
  have h4: "\<not> falsy (REPO cfg0)" by code_simp
  have h5: "fst (gh_reply oc_404) \<noteq> 200" by code_simp
  from h1 h2 h3 h4 h5 C5_unknown_branch_not_found[OF h1 h2 h3 h4 h5, of w_init]
  show ?thesis by blast
qed

section \<open>Provision: failure and success\<close>

lemma provision_fail:
  assumes "req_service req \<in> ALLOWED cfg"
    and "gh_branch_exists cfg oc (req_branch req) w = (Inr s, w1)"
    and "provision cfg oc req w = (Inl e, w')"
  shows "keeps w w' \<and> path_join (BASE cfg) (make_env_id (req_branch req) s (uuid_hex oc)) \<in> dirs w'"
  using assms unfolding provision_def Let_def
  apply (simp add: and_then_def[of "(Inr s, w1)"])
  apply (elim and_then_InlE)
  apply (auto dest!: run_keeps[rotated] ensure_network_keeps build_and_run_keeps
           start_ngrok_keeps gh_keeps simp: keeps_def mkdir_def)
  apply blast+
  done

lemma provision_fail_store:
  assumes "provision cfg oc req w = (Inl e, w')"
  shows "STATE w' = STATE w \<and> STATE_DB w' = STATE_DB w"
proof (cases "req_service req \<in> ALLOWED cfg")
  case False
  with assms show ?thesis by (simp add: provision_def)
next
  case True
  obtain q w1 where gh: "gh_branch_exists cfg oc (req_branch req) w = (q, w1)" by force
  show ?thesis
  proof (cases q)
    case (Inl e1)
    with assms True gh have "w' = w1" by (simp add: provision_def and_then_def)
    with gh_keeps[OF gh] show ?thesis by (simp add: keeps_def)
  next
    case (Inr s)
    with provision_fail[OF True _ assms] gh show ?thesis by (simp add: keeps_def)
  qed
qed

lemma provision_ok:
  assumes "provision cfg oc req w = (Inr r, w')"
  shows "\<exists>u w7. keeps w w7
     \<and> r = \<lparr>r_env_id = make_env_id (req_branch req) (snd (gh_reply oc)) (uuid_hex oc), r_url = u,
            r_expires_at = time1 oc + ttl_of cfg req * 60, r_sha = snd (gh_reply oc)\<rparr>
     \<and> w' = save_state (w7\<lparr>STATE := AList.update (r_env_id r)
               \<lparr>branch = req_branch req, sha = r_sha r, url = u, port = 8080,
                workdir = path_join (BASE cfg) (r_env_id r),
                created_at = time2 oc, expires_at = r_expires_at r\<rparr> (STATE w7)\<rparr>)"
proof -
  from assms obtain s eid wd w1 w3 w4 w5 p w6 u w7 where
    eid_def: "eid = make_env_id (req_branch req) s (uuid_hex oc)"
    and wd_def: "wd = path_join (BASE cfg) eid"
    and gh: "gh_branch_exists cfg oc (req_branch req) w = (Inr s, w1)"
    and clone: "run oc (GitClone (clone_url cfg) wd) (mkdir wd w1) = (Inr (), w3)"
    and checkout: "run oc (GitCheckout (req_branch req) wd) w3 = (Inr (), w4)"
    and net: "ensure_network cfg oc w4 = (Inr (), w5)"
    and build: "build_and_run cfg oc req eid wd w5 = (Inr p, w6)"
    and ngrok: "start_ngrok cfg oc p w6 = (Inr u, w7)"
    and r: "r = \<lparr>r_env_id = eid, r_url = u, r_expires_at = time1 oc + ttl_of cfg req * 60, r_sha = s\<rparr>"
    and w': "w' = save_state (w7\<lparr>STATE := AList.update eid
                       \<lparr>branch = req_branch req, sha = s, url = u, port = p, workdir = wd,
                        created_at = time2 oc, expires_at = time1 oc + ttl_of cfg req * 60\<rparr> (STATE w7)\<rparr>)"
    unfolding provision_def Let_def
    by (auto split: if_splits elim!: and_then_InrE)
  have s: "s = snd (gh_reply oc)" using gh gh_Inr by blast
  have p: "p = 8080" using build build_and_run_port by blast
  have "keeps w w1" using gh by (rule gh_keeps)
  moreover have "keeps w1 (mkdir wd w1)" by (simp add: keeps_def mkdir_def subset_insertI)
  moreover have "keeps (mkdir wd w1) w3" using clone by (auto dest: run_keeps[rotated])
  moreover have "keeps w3 w4" using checkout by (auto dest: run_keeps[rotated])
  moreover have "keeps w4 w5" using net by (rule ensure_network_keeps)
  moreover have "keeps w5 w6" using build by (rule build_and_run_keeps)
  moreover have "keeps w6 w7" using ngrok by (rule start_ngrok_keeps)
  ultimately have "keeps w w7" by (blast intro: keeps_trans)
  then show ?thesis using r w' s p by (auto simp: eid_def wd_def)
qed

text \<open>What a successful \<open>provision\<close> leaves in the dictionary.\<close>

lemma provision_ok_STATE:
  assumes "fst (provision cfg oc req w) = Inr r"
  shows "STATE (snd (provision cfg oc req w)) = AList.update (r_env_id r)
               \<lparr>branch = req_branch req, sha = r_sha r, url = r_url r, port = 8080,
                workdir = path_join (BASE cfg) (r_env_id r),
                created_at = time2 oc, expires_at = r_expires_at r\<rparr> (STATE w)
      \<and> r_expires_at r = time1 oc + ttl_of cfg req * 60"
proof -
  from assms have "provision cfg oc req w = (Inr r, snd (provision cfg oc req w))"
    by (cases "provision cfg oc req w") simp
  from provision_ok[OF this] show ?thesis
    by (auto simp: save_state_def keeps_def)
qed

subsection \<open>A failed call undoes nothing\<close>

lemma no_undo_refl [simp]: "no_undo oc w w"
  by (simp add: no_undo_def)

lemma no_undo_trans:
  assumes "no_undo oc a b" and "no_undo oc b c"
  shows "no_undo oc a c"
proof -
  from assms(1) obtain t1 where t1: "trace b = trace a @ t1"
    and n1: "\<forall>x. Exec x \<in> set t1 \<longrightarrow> \<not> teardown x"
    and r1: "\<forall>n net p img. Exec (DockerRun n net p img) \<in> set t1
              \<longrightarrow> exit_ok oc (DockerRun n net p img) \<longrightarrow> n \<in> containers b"
    and u1: "\<forall>d. Exec (ComposeUp d) \<in> set t1 \<longrightarrow> exit_ok oc (ComposeUp d) \<longrightarrow> d \<in> stacks b"
    and k1: "keeps a b"
    unfolding no_undo_def by blast
  from assms(2) obtain t2 where t2: "trace c = trace b @ t2"
    and n2: "\<forall>x. Exec x \<in> set t2 \<longrightarrow> \<not> teardown x"
    and r2: "\<forall>n net p img. Exec (DockerRun n net p img) \<in> set t2
              \<longrightarrow> exit_ok oc (DockerRun n net p img) \<longrightarrow> n \<in> containers c"
    and u2: "\<forall>d. Exec (ComposeUp d) \<in> set t2 \<longrightarrow> exit_ok oc (ComposeUp d) \<longrightarrow> d \<in> stacks c"
    and k2: "keeps b c"
    unfolding no_undo_def by blast
  have sub: "containers b \<subseteq> containers c" "stacks b \<subseteq> stacks c"
    using k2 by (simp_all add: keeps_def)
  have "trace c = trace a @ (t1 @ t2)" using t1 t2 by simp
  moreover have "\<forall>x. Exec x \<in> set (t1 @ t2) \<longrightarrow> \<not> teardown x" using n1 n2 by auto
  moreover have "\<forall>n net p img. Exec (DockerRun n net p img) \<in> set (t1 @ t2)
              \<longrightarrow> exit_ok oc (DockerRun n net p img) \<longrightarrow> n \<in> containers c"
    using r1 r2 sub by auto
  moreover have "\<forall>d. Exec (ComposeUp d) \<in> set (t1 @ t2)
              \<longrightarrow> exit_ok oc (ComposeUp d) \<longrightarrow> d \<in> stacks c"
    using u1 u2 sub by auto
  moreover have "keeps a c" using k1 k2 by (rule keeps_trans)
  ultimately show ?thesis unfolding no_undo_def by blast
qed

lemma no_undo_dirs: "no_undo oc a b \<Longrightarrow> d \<in> dirs a \<Longrightarrow> d \<in> dirs b"
  by (auto simp: no_undo_def keeps_def)

lemma run_no_undo: "\<not> teardown c \<Longrightarrow> run oc c w = (r, w') \<Longrightarrow> no_undo oc w w'"
  by (cases c) (auto simp: run_def log_def Let_def keeps_def no_undo_def split: if_splits)

lemma gh_no_undo: "gh_branch_exists cfg oc b w = (r, w') \<Longrightarrow> no_undo oc w w'"
  by (auto simp: gh_branch_exists_def log_def Let_def keeps_def no_undo_def split: if_splits)

lemma mkdir_no_undo: "no_undo oc w (mkdir d w)"
  by (auto simp: mkdir_def keeps_def no_undo_def)

lemma ensure_network_no_undo: "ensure_network cfg oc w = (r, w') \<Longrightarrow> no_undo oc w w'"
  by (auto simp: ensure_network_def split: prod.splits sum.splits
        dest!: run_no_undo[rotated] intro: no_undo_trans)

lemma build_and_run_no_undo: "build_and_run cfg oc req eid wd w = (r, w') \<Longrightarrow> no_undo oc w w'"
  unfolding build_and_run_def Let_def
  by (auto split: if_splits prod.splits sum.splits dest!: run_no_undo[rotated]
        simp: and_then_def intro: no_undo_trans)

lemma start_ngrok_no_undo: "start_ngrok cfg oc p w = (r, w') \<Longrightarrow> no_undo oc w w'"
  unfolding start_ngrok_def Let_def
  by (cases "exit_ok oc (NgrokAuthtoken (fmt (NGROK_AUTHTOKEN cfg)))")
     (auto split: if_splits option.splits simp: run_def log_def keeps_def no_undo_def Let_def)

lemma mkdir_dirs: "d \<in> dirs (mkdir d w)"
  by (simp add: mkdir_def)

lemma provision_fail_no_undo:
  assumes "req_service req \<in> ALLOWED cfg"
    and "gh_branch_exists cfg oc (req_branch req) w = (Inr s, wa)"
    and "provision cfg oc req w = (Inl e, w')"
  shows "no_undo oc w w'
       \<and> path_join (BASE cfg) (make_env_id (req_branch req) s (uuid_hex oc)) \<in> dirs w'"
proof -
  define wd where "wd = path_join (BASE cfg) (make_env_id (req_branch req) s (uuid_hex oc))"
  define Q where "Q x \<longleftrightarrow> no_undo oc w x \<and> wd \<in> dirs x" for x
  have step: "\<And>a b. Q a \<Longrightarrow> no_undo oc a b \<Longrightarrow> Q b"
    unfolding Q_def by (blast intro: no_undo_trans no_undo_dirs)
  have q0: "Q (mkdir wd wa)"
    unfolding Q_def using gh_no_undo[OF assms(2)] mkdir_no_undo[of oc wa wd]
    by (blast intro: no_undo_trans mkdir_dirs)
  have clone_step: "\<And>u d a r b. run oc (GitClone u d) a = (r, b) \<Longrightarrow> Q a \<Longrightarrow> Q b"
    by (rule step, assumption, rule run_no_undo[rotated], assumption, simp)
  have checkout_step: "\<And>u d a r b. run oc (GitCheckout u d) a = (r, b) \<Longrightarrow> Q a \<Longrightarrow> Q b"
    by (rule step, assumption, rule run_no_undo[rotated], assumption, simp)
  have net_step: "\<And>a r b. ensure_network cfg oc a = (r, b) \<Longrightarrow> Q a \<Longrightarrow> Q b"
    by (rule step, assumption, rule ensure_network_no_undo, assumption)
  have build_step: "\<And>i d a r b. build_and_run cfg oc req i d a = (r, b) \<Longrightarrow> Q a \<Longrightarrow> Q b"
    by (rule step, assumption, rule build_and_run_no_undo, assumption)
  have ngrok_step: "\<And>p a r b. start_ngrok cfg oc p a = (r, b) \<Longrightarrow> Q a \<Longrightarrow> Q b"
    by (rule step, assumption, rule start_ngrok_no_undo, assumption)
  have "Q w'"
    using assms q0[unfolded wd_def] unfolding provision_def Let_def
    apply (simp add: and_then_def[of "(Inr s, wa)"])
    apply (elim and_then_InlE)
         apply ((drule (1) clone_step checkout_step net_step build_step ngrok_step)+, assumption)+
    apply simp
    done
  then show ?thesis by (simp add: Q_def wd_def)
qed

text \<open>
  C1 (as the code has it). When the branch was resolved, so that the work directory was made,
  and a later step of \<open>provision\<close> raises, nothing was committed: the dictionary and its file
  are those of before the call. Nothing is undone either. The work directory of the call
  exists afterwards. Every directory, container and stack that was there before is still
  there. Among the effects of the call there is no teardown command, and every container
  and every compose stack that the call itself started, by a \<^verbatim>\<open>docker run\<close> or a
  \<^verbatim>\<open>docker compose up\<close> that exited with status 0, is there afterwards.
\<close>

theorem C1_failure_commits_nothing_undoes_nothing:
  assumes "req_service req \<in> ALLOWED cfg"
    and "fst (gh_branch_exists cfg oc (req_branch req) w) = Inr s"
    and "fst (provision cfg oc req w) = Inl e"
  shows "STATE (snd (provision cfg oc req w)) = STATE w
       \<and> STATE_DB (snd (provision cfg oc req w)) = STATE_DB w
       \<and> path_join (BASE cfg) (make_env_id (req_branch req) s (uuid_hex oc))
           \<in> dirs (snd (provision cfg oc req w))
       \<and> dirs w \<subseteq> dirs (snd (provision cfg oc req w))
       \<and> containers w \<subseteq> containers (snd (provision cfg oc req w))
       \<and> stacks w \<subseteq> stacks (snd (provision cfg oc req w))
       \<and> (\<exists>t. trace (snd (provision cfg oc req w)) = trace w @ t
            \<and> (\<forall>c. Exec c \<in> set t \<longrightarrow> \<not> teardown c)
            \<and> (\<forall>n net p img. Exec (DockerRun n net p img) \<in> set t
                  \<longrightarrow> exit_ok oc (DockerRun n net p img)
                  \<longrightarrow> n \<in> containers (snd (provision cfg oc req w)))
            \<and> (\<forall>d. Exec (ComposeUp d) \<in> set t
                  \<longrightarrow> exit_ok oc (ComposeUp d)
                  \<longrightarrow> d \<in> stacks (snd (provision cfg oc req w))))"
proof -
  from assms(2) have gh: "gh_branch_exists cfg oc (req_branch req) w
      = (Inr s, snd (gh_branch_exists cfg oc (req_branch req) w))"
    by (cases "gh_branch_exists cfg oc (req_branch req) w") simp
  from assms(3) have pr: "provision cfg oc req w = (Inl e, snd (provision cfg oc req w))"
    by (cases "provision cfg oc req w") simp
  from provision_fail_no_undo[OF assms(1) gh pr] show ?thesis
    unfolding no_undo_def keeps_def by blast
qed

theorem C1_failure_commits_nothing_undoes_nothing_witness:
  "req_service req_x \<in> ALLOWED cfg0
   \<and> fst (gh_branch_exists cfg0 oc_no_tunnel (req_branch req_x) w_prev) = Inr ''abc1234def''
   \<and> fst (provision cfg0 oc_no_tunnel req_x w_prev) = Inl (HTTPException 500)
   \<and> STATE (snd (provision cfg0 oc_no_tunnel req_x w_prev)) = STATE w_prev
   \<and> STATE_DB (snd (provision cfg0 oc_no_tunnel req_x w_prev)) = STATE_DB w_prev
   \<and> path_join (BASE cfg0) (make_env_id (req_branch req_x) ''abc1234def'' (uuid_hex oc_no_tunnel))
       \<in> dirs (snd (provision cfg0 oc_no_tunnel req_x w_prev))
   \<and> dirs w_prev \<subseteq> dirs (snd (provision cfg0 oc_no_tunnel req_x w_prev))
   \<and> containers w_prev \<subseteq> containers (snd (provision cfg0 oc_no_tunnel req_x w_prev))
   \<and> stacks w_prev \<subseteq> stacks (snd (provision cfg0 oc_no_tunnel req_x w_prev))
   \<and> (\<exists>t. trace (snd (provision cfg0 oc_no_tunnel req_x w_prev)) = trace w_prev @ t
        \<and> (\<forall>c. Exec c \<in> set t \<longrightarrow> \<not> teardown c)
        \<and> (\<forall>n net p img. Exec (DockerRun n net p img) \<in> set t
              \<longrightarrow> exit_ok oc_no_tunnel (DockerRun n net p img)
              \<longrightarrow> n \<in> containers (snd (provision cfg0 oc_no_tunnel req_x w_prev)))
        \<and> (\<forall>d. Exec (ComposeUp d) \<in> set t
              \<longrightarrow> exit_ok oc_no_tunnel (ComposeUp d)
              \<longrightarrow> d \<in> stacks (snd (provision cfg0 oc_no_tunnel req_x w_prev))))"
proof -
  have h1: "req_service req_x \<in> ALLOWED cfg0" by code_simp
  have h2: "fst (gh_branch_exists cfg0 oc_no_tunnel (req_branch req_x) w_prev) = Inr ''abc1234def''"
    by code_simp
  have h3: "fst (provision cfg0 oc_no_tunnel req_x w_prev) = Inl (HTTPException 500)" by code_simp
  note c = C1_failure_commits_nothing_undoes_nothing[OF h1 h2 h3]
  from conjI[OF h1 conjI[OF h2 conjI[OF h3 c]]] show ?thesis .
qed

text \<open>
  The claim as stated fails: on a fresh host a single image is built and started, the
  tunnel never shows in 40 polls, \<open>provision\<close> raises status 500, and the work directory
  and the container of the call are still there.
\<close>

theorem C1_rollback_counterexample:
  "fst (provision cfg0 oc_no_tunnel req_x w_init) = Inl (HTTPException 500)
   \<and> dirs (snd (provision cfg0 oc_no_tunnel req_x w_init)) = {''/qa/f-x-abc1234-0f1e2d''}
   \<and> containers (snd (provision cfg0 oc_no_tunnel req_x w_init)) = {''f-x-abc1234-0f1e2d''}
   \<and> dirs w_init = {} \<and> containers w_init = {}"
  by code_simp

text \<open>
  C6 (as the code has it). After a successful \<open>provision\<close> the record committed under the
  returned id has the returned \<open>expires_at\<close>, which is the first reading of the clock plus
  60 times the TTL; the TTL is the \<open>ttl_minutes\<close> of the request when that is present and
  not zero, negative values included, and \<open>DEFAULT_TTL\<close> when it is absent or zero.
\<close>

theorem C6_ttl_is_request_value_unless_absent_or_zero:
  assumes "fst (provision cfg oc req w) = Inr r"
  shows "(\<exists>v. map_of (STATE (snd (provision cfg oc req w))) (r_env_id r) = Some v
            \<and> expires_at v = r_expires_at r)
       \<and> r_expires_at r = time1 oc + 60 *
           (case req_ttl_minutes req of
              None \<Rightarrow> DEFAULT_TTL cfg
            | Some t \<Rightarrow> if t = 0 then DEFAULT_TTL cfg else t)"
  using provision_ok_STATE[OF assms]
  by (simp add: AList.update_conv' ttl_of_def split: option.splits)

theorem C6_ttl_is_request_value_unless_absent_or_zero_witness:
  "fst (provision cfg0 oc_ok req_neg w_init)
     = Inr \<lparr>r_env_id = ''f-x-abc1234-0f1e2d'', r_url = ''u'', r_expires_at = 700,
            r_sha = ''abc1234def''\<rparr>
   \<and> (\<exists>v. map_of (STATE (snd (provision cfg0 oc_ok req_neg w_init)))
            (r_env_id \<lparr>r_env_id = ''f-x-abc1234-0f1e2d'', r_url = ''u'', r_expires_at = 700,
                       r_sha = ''abc1234def''\<rparr>) = Some v
          \<and> expires_at v = r_expires_at \<lparr>r_env_id = ''f-x-abc1234-0f1e2d'', r_url = ''u'',
                               r_expires_at = 700, r_sha = ''abc1234def''\<rparr>)"
proof -
  have h: "fst (provision cfg0 oc_ok req_neg w_init)
     = Inr \<lparr>r_env_id = ''f-x-abc1234-0f1e2d'', r_url = ''u'', r_expires_at = 700,
            r_sha = ''abc1234def''\<rparr>"
    by code_simp
  from h C6_ttl_is_request_value_unless_absent_or_zero[OF h] show ?thesis by blast
qed

text \<open>
  The claim as stated fails on a negative value: with \<open>ttl_minutes = -5\<close>, a clock
  reading of 1000 and a default of 120 minutes, the record expires at 700, which is
  \<open>1000 - 5 * 60\<close>, and not at 8200, which the default gives.
\<close>

theorem C6_negative_ttl_counterexample:
  "req_ttl_minutes req_neg = Some (- 5)
   \<and> time1 oc_ok + DEFAULT_TTL cfg0 * 60 = 8200
   \<and> fst (provision cfg0 oc_ok req_neg w_init)
       = Inr \<lparr>r_env_id = ''f-x-abc1234-0f1e2d'', r_url = ''u'', r_expires_at = 700,
              r_sha = ''abc1234def''\<rparr>
   \<and> map (expires_at \<circ> snd) (STATE (snd (provision cfg0 oc_ok req_neg w_init))) = [700]"
  by code_simp

text \<open>
  C7 (as the code has it). There is no test for a present key: when \<open>provision\<close> succeeds
  and its id is already in the dictionary, the record under that id is replaced by the new
  one; the keys and their order stay, and so does every other record.
\<close>

theorem C7_present_id_is_overwritten:
  assumes "fst (provision cfg oc req w) = Inr r"
    and "map_of (STATE w) (r_env_id r) = Some old"
  shows "map_of (STATE (snd (provision cfg oc req w))) (r_env_id r)
           = Some \<lparr>branch = req_branch req, sha = r_sha r, url = r_url r, port = 8080,
                   workdir = path_join (BASE cfg) (r_env_id r), created_at = time2 oc,
                   expires_at = r_expires_at r\<rparr>
       \<and> map fst (STATE (snd (provision cfg oc req w))) = map fst (STATE w)
       \<and> (\<forall>k. k \<noteq> r_env_id r
            \<longrightarrow> map_of (STATE (snd (provision cfg oc req w))) k = map_of (STATE w) k)"
proof -
  have "r_env_id r \<in> set (map fst (STATE w))"
    using assms(2) by (metis map_of_eq_None_iff option.distinct(1) set_map)
  then show ?thesis
    using provision_ok_STATE[OF assms(1)]
    by (simp add: AList.update_conv' AList.update_keys)
qed

theorem C7_present_id_is_overwritten_witness:
  "fst (provision cfg0 oc_later req_x w_stale)
     = Inr \<lparr>r_env_id = ''f-x-abc1234-0f1e2d'', r_url = ''u'', r_expires_at = 5600,
            r_sha = ''abc1234def''\<rparr>
   \<and> map_of (STATE w_stale) ''f-x-abc1234-0f1e2d'' = Some env_old
   \<and> map_of (STATE (snd (provision cfg0 oc_later req_x w_stale))) ''f-x-abc1234-0f1e2d''
     = Some \<lparr>branch = ''f/x'', sha = ''abc1234def'', url = ''u'', port = 8080,
             workdir = ''/qa/f-x-abc1234-0f1e2d'', created_at = 5001, expires_at = 5600\<rparr>
   \<and> map fst (STATE (snd (provision cfg0 oc_later req_x w_stale))) = map fst (STATE w_stale)"
proof -
  have h1: "fst (provision cfg0 oc_later req_x w_stale)
     = Inr \<lparr>r_env_id = ''f-x-abc1234-0f1e2d'', r_url = ''u'', r_expires_at = 5600,
            r_sha = ''abc1234def''\<rparr>"
    by code_simp
  have h2: "map_of (STATE w_stale) (r_env_id \<lparr>r_env_id = ''f-x-abc1234-0f1e2d'', r_url = ''u'',
              r_expires_at = 5600, r_sha = ''abc1234def''\<rparr>) = Some env_old"
    by (simp add: w_stale_def)
  have e: "req_branch req_x = ''f/x''" "time2 oc_later = 5001"
    "path_join (BASE cfg0) ''f-x-abc1234-0f1e2d'' = ''/qa/f-x-abc1234-0f1e2d''"
    by code_simp+
  from C7_present_id_is_overwritten[OF h1 h2] h1 h2 e show ?thesis by simp
qed

text \<open>
  The claim as stated fails. The dictionary holds a record whose work directory is no
  longer on disk; a call for the same branch and commit draws a UUID with the same first
  six digits, so that its id is the one of that record. \<^verbatim>\<open>mkdir(exist_ok=True)\<close> makes
  the directory anew, the clone goes into the empty directory, the stack comes up and the
  tunnel shows: \<open>provision\<close> returns normally and the dictionary holds the new record in
  place of the old one.
\<close>

theorem C7_silent_overwrite_counterexample:
  "STATE w_stale = [(''f-x-abc1234-0f1e2d'', env_old)]
   \<and> dirs w_stale = {}
   \<and> expires_at env_old = 1600
   \<and> fst (provision cfg0 oc_later req_x w_stale)
     = Inr \<lparr>r_env_id = ''f-x-abc1234-0f1e2d'', r_url = ''u'', r_expires_at = 5600,
            r_sha = ''abc1234def''\<rparr>
   \<and> STATE (snd (provision cfg0 oc_later req_x w_stale))
     = [(''f-x-abc1234-0f1e2d'',
         \<lparr>branch = ''f/x'', sha = ''abc1234def'', url = ''u'', port = 8080,
          workdir = ''/qa/f-x-abc1234-0f1e2d'', created_at = 5001, expires_at = 5600\<rparr>)]"
  by code_simp

section \<open>Listing and garbage collection\<close>







section \<open>Garbage collection when a destroy raises\<close>









section \<open>Records of a reachable dictionary\<close>

lemma provision_inv:
  assumes "store_inv cfg (STATE w)"
  shows "store_inv cfg (STATE (snd (provision cfg oc req w)))"
proof (cases "fst (provision cfg oc req w)")
  case (Inl e)
  then have "provision cfg oc req w = (Inl e, snd (provision cfg oc req w))"
    by (cases "provision cfg oc req w") simp
  from provision_fail_store[OF this] assms show ?thesis by simp
next
  case (Inr r)
  from provision_ok_STATE[OF Inr] assms show ?thesis
    by (auto simp: store_inv_def AList.update_conv' split: if_splits)
qed

lemma destroy_inv:
  assumes "store_inv cfg (STATE w)"
  shows "store_inv cfg (STATE (snd (destroy oc k w)))"
proof (cases "map_of (STATE w) k")
  case None
  with assms show ?thesis by (simp add: destroy_def)
next
  case (Some e)
  with assms destroy_STATE[OF Some, of oc] show ?thesis
    by (simp add: store_inv_def AList.delete_conv')
qed

lemma gc_loop_inv:
  "store_inv cfg (STATE w) \<Longrightarrow> store_inv cfg (STATE (snd (gc_loop oc now ks killed w)))"
proof (induction ks arbitrary: w killed)
  case Nil
  then show ?case by simp
next
  case (Cons k ks)
  have "store_inv cfg (STATE (snd (destroy oc k w)))" using Cons.prems by (rule destroy_inv)
  then show ?case using Cons.IH Cons.prems
    by (auto split: option.splits prod.splits sum.splits)
qed

lemma handle_inv: "store_inv cfg (STATE w) \<Longrightarrow> store_inv cfg (STATE (handle cfg r w))"
  by (cases r) (simp_all add: provision_inv destroy_inv gc_loop_inv garbage_collect_def)

lemma serve_inv: "store_inv cfg (STATE w) \<Longrightarrow> store_inv cfg (STATE (serve cfg rs w))"
  by (induction rs arbitrary: w) (simp_all add: handle_inv)

text \<open>
  C2 (as the code has it). Start from an empty dictionary and serve any sequence of
  requests. Two records found under different ids in the resulting dictionary have
  different work directories, each being \<open>BASE\<close> joined with its id. Their ports do not
  differ: every record carries the port 8080.
\<close>

theorem C2_workdirs_differ_ports_are_8080:
  assumes "STATE w = []"
    and "map_of (STATE (serve cfg rs w)) k1 = Some v1"
    and "map_of (STATE (serve cfg rs w)) k2 = Some v2"
    and "k1 \<noteq> k2"
  shows "workdir v1 \<noteq> workdir v2
       \<and> workdir v1 = path_join (BASE cfg) k1 \<and> workdir v2 = path_join (BASE cfg) k2
       \<and> port v1 = 8080 \<and> port v2 = 8080"
proof -
  have "store_inv cfg (STATE w)" using assms(1) by (simp add: store_inv_def)
  then have "store_inv cfg (STATE (serve cfg rs w))" by (rule serve_inv)
  with assms show ?thesis by (auto simp: store_inv_def path_join_def)
qed

theorem C2_workdirs_differ_ports_are_8080_witness:
  "STATE w_init = []
   \<and> map_of (STATE (serve cfg0 reqs2 w_init)) ''f-x-abc1234-0f1e2d''
     = Some \<lparr>branch = ''f/x'', sha = ''abc1234def'', url = ''u'', port = 8080,
             workdir = ''/qa/f-x-abc1234-0f1e2d'', created_at = 1001, expires_at = 1600\<rparr>
   \<and> map_of (STATE (serve cfg0 reqs2 w_init)) ''f-x-abc1234-a1b2c3''
     = Some \<lparr>branch = ''f/x'', sha = ''abc1234def'', url = ''u'', port = 8080,
             workdir = ''/qa/f-x-abc1234-a1b2c3'', created_at = 1001, expires_at = 1600\<rparr>
   \<and> ''f-x-abc1234-0f1e2d'' \<noteq> ''f-x-abc1234-a1b2c3''
   \<and> workdir \<lparr>branch = ''f/x'', sha = ''abc1234def'', url = ''u'', port = 8080,
             workdir = ''/qa/f-x-abc1234-0f1e2d'', created_at = 1001, expires_at = 1600\<rparr>
     \<noteq> workdir \<lparr>branch = ''f/x'', sha = ''abc1234def'', url = ''u'', port = 8080,
             workdir = ''/qa/f-x-abc1234-a1b2c3'', created_at = 1001, expires_at = 1600\<rparr>"
proof -
  have h1: "STATE w_init = []" by code_simp
  have h2: "map_of (STATE (serve cfg0 reqs2 w_init)) ''f-x-abc1234-0f1e2d''
     = Some \<lparr>branch = ''f/x'', sha = ''abc1234def'', url = ''u'', port = 8080,
             workdir = ''/qa/f-x-abc1234-0f1e2d'', created_at = 1001, expires_at = 1600\<rparr>"
    by code_simp
  have h3: "map_of (STATE (serve cfg0 reqs2 w_init)) ''f-x-abc1234-a1b2c3''
     = Some \<lparr>branch = ''f/x'', sha = ''abc1234def'', url = ''u'', port = 8080,
             workdir = ''/qa/f-x-abc1234-a1b2c3'', created_at = 1001, expires_at = 1600\<rparr>"
    by code_simp
  have h4: "''f-x-abc1234-0f1e2d'' \<noteq> ''f-x-abc1234-a1b2c3''" by simp
  from h1 h2 h3 h4 C2_workdirs_differ_ports_are_8080[OF h1 h2 h3 h4]
  show ?thesis by blast
qed

text \<open>
  The claim as stated fails on the ports: two environments provisioned one after the
  other, both from a repository with a compose file, are in the dictionary together
  under different ids and with the same port.
\<close>

theorem C2_same_port_counterexample:
  "map fst (STATE (serve cfg0 reqs2 w_init)) = [''f-x-abc1234-0f1e2d'', ''f-x-abc1234-a1b2c3'']
   \<and> map (port \<circ> snd) (STATE (serve cfg0 reqs2 w_init)) = [8080, 8080]"
  by code_simp

end
